theory Spec2Isabelle
  imports Main
begin

section \<open>Python values, exceptions and string primitives\<close>

text \<open>
  The two scripts \<^verbatim>\<open>deafrica/monitoring/landsat_gap_report.py\<close> and
  \<^verbatim>\<open>deafrica/data/chirps.py\<close> are embedded as HOL functions. Every exception the
  Python can raise is a value \<open>Inl e\<close> of a sum type. Strings are \<open>char list\<close>; the
  string methods below are the ASCII behaviour of the Python methods of the same name.
\<close>

datatype error =
    KeyError string
  | AttributeError
  | TypeError
  | ValueError
  | OverflowError
  | IllegalMonthError
  | External string
  | Exception string
  | SystemExit nat

text \<open>\<^verbatim>\<open>str.upper\<close>, \<^verbatim>\<open>str.lower\<close> and \<^verbatim>\<open>str.replace("_", "-")\<close>.\<close>

definition ascii_lowercase :: string where
  "ascii_lowercase = ''abcdefghijklmnopqrstuvwxyz''"

definition ascii_uppercase :: string where
  "ascii_uppercase = ''ABCDEFGHIJKLMNOPQRSTUVWXYZ''"

definition upper_char :: "char \<Rightarrow> char" where
  "upper_char c = (case map_of (zip ascii_lowercase ascii_uppercase) c of Some u \<Rightarrow> u | None \<Rightarrow> c)"

definition lower_char :: "char \<Rightarrow> char" where
  "lower_char c = (case map_of (zip ascii_uppercase ascii_lowercase) c of Some l \<Rightarrow> l | None \<Rightarrow> c)"

definition py_upper :: "string \<Rightarrow> string" where
  "py_upper s = map upper_char s"

definition py_lower :: "string \<Rightarrow> string" where
  "py_lower s = map lower_char s"

definition replace_char :: "char \<Rightarrow> char \<Rightarrow> string \<Rightarrow> string" where
  "replace_char old new s = map (\<lambda>c. if c = old then new else c) s"

text \<open>\<^verbatim>\<open>sub in s\<close> on strings.\<close>

fun str_contains :: "string \<Rightarrow> string \<Rightarrow> bool" where
  "str_contains sub [] = (sub = [])"
| "str_contains sub (c # cs) = (take (length sub) (c # cs) = sub \<or> str_contains sub cs)"

text \<open>\<^verbatim>\<open>s.rstrip("/")\<close> and \<^verbatim>\<open>s.rsplit("/", 1)[0]\<close>.\<close>

definition rstrip_char :: "char \<Rightarrow> string \<Rightarrow> string" where
  "rstrip_char c s = rev (dropWhile (\<lambda>x. x = c) (rev s))"

definition rsplit1_head :: "char \<Rightarrow> string \<Rightarrow> string" where
  "rsplit1_head c s =
     (if c \<in> set s then rev (tl (dropWhile (\<lambda>x. x \<noteq> c) (rev s))) else s)"

text \<open>
  \<^verbatim>\<open>s.zfill(width)\<close>: zeros are added on the left up to the width, after a leading
  sign if there is one; a string that already has the width or more is returned as it is.
\<close>

definition zfill :: "nat \<Rightarrow> string \<Rightarrow> string" where
  "zfill width s =
     (if width \<le> length s then s
      else (case s of
              c # cs \<Rightarrow>
                if c = CHR ''+'' \<or> c = CHR ''-''
                then c # replicate (width - length s) CHR ''0'' @ cs
                else replicate (width - length s) CHR ''0'' @ s
            | [] \<Rightarrow> replicate width CHR ''0''))"

text \<open>\<^verbatim>\<open>str(n)\<close> of a number, as an f-string formats it.\<close>

definition digit_chars :: string where
  "digit_chars = ''0123456789''"

fun str_of_nat :: "nat \<Rightarrow> string" where
  "str_of_nat n =
     (if n < 10 then [digit_chars ! n]
      else str_of_nat (n div 10) @ [digit_chars ! (n mod 10)])"

declare str_of_nat.simps [simp del]

definition str_of_int :: "int \<Rightarrow> string" where
  "str_of_int i = (if i < 0 then CHR ''-'' # str_of_nat (nat (- i)) else str_of_nat (nat i))"

text \<open>
  \<^verbatim>\<open>int(s)\<close> in base 10: white space is stripped at both ends, one sign may follow,
  then decimal digits, where a single underscore may stand between two digits. Anything
  else raises \<^verbatim>\<open>ValueError\<close>, and so does a string with more decimal digits than
  \<^verbatim>\<open>sys.int_info.default_max_str_digits\<close>. The white space of \<^verbatim>\<open>int\<close> is the tabulator
  to the carriage return, the space and, a character above 0x7F being the code point of
  that number, the next line 0x85 and the no-break space 0xA0; the separators 0x1C to
  0x1F are not stripped.
\<close>

definition is_space :: "char \<Rightarrow> bool" where
  "is_space c = (c \<in> set [CHR 0x09, CHR 0x0A, CHR 0x0B, CHR 0x0C, CHR 0x0D, CHR '' '',
                           CHR 0x85, CHR 0xA0])"

definition digit_of :: "char \<Rightarrow> nat option" where
  "digit_of c = map_of (zip digit_chars [0, 1, 2, 3, 4, 5, 6, 7, 8, 9]) c"

definition is_digit :: "char \<Rightarrow> bool" where
  "is_digit c = (digit_of c \<noteq> None)"

definition int_max_str_digits :: nat where
  "int_max_str_digits = 4300"

fun int_digits :: "nat \<Rightarrow> string \<Rightarrow> nat option" where
  "int_digits acc [] = Some acc"
| "int_digits acc [c] =
     (case digit_of c of None \<Rightarrow> None | Some v \<Rightarrow> Some (10 * acc + v))"
| "int_digits acc (c # d # ds) =
     (if c = CHR ''_''
      then (case digit_of d of None \<Rightarrow> None | Some v \<Rightarrow> int_digits (10 * acc + v) ds)
      else (case digit_of c of None \<Rightarrow> None | Some v \<Rightarrow> int_digits (10 * acc + v) (d # ds)))"

definition int_unsigned :: "string \<Rightarrow> nat option" where
  "int_unsigned s =
     (case s of
        [] \<Rightarrow> None
      | c # cs \<Rightarrow> (case digit_of c of None \<Rightarrow> None | Some v \<Rightarrow> int_digits v cs))"

definition strip :: "string \<Rightarrow> string" where
  "strip s = rev (dropWhile is_space (rev (dropWhile is_space s)))"

definition py_int :: "string \<Rightarrow> error + int" where
  "py_int s =
     (let t = strip s in
      if int_max_str_digits < length (filter is_digit t) then Inl ValueError
      else
      case t of
        [] \<Rightarrow> Inl ValueError
      | c # cs \<Rightarrow>
          if c = CHR ''-''
          then (case int_unsigned cs of None \<Rightarrow> Inl ValueError | Some n \<Rightarrow> Inr (- int n))
          else if c = CHR ''+''
          then (case int_unsigned cs of None \<Rightarrow> Inl ValueError | Some n \<Rightarrow> Inr (int n))
          else (case int_unsigned t of None \<Rightarrow> Inl ValueError | Some n \<Rightarrow> Inr (int n)))"


section \<open>The gap report: \<^verbatim>\<open>landsat_gap_report.py\<close>\<close>

subsection \<open>Data and surroundings\<close>

text \<open>
  A row of \<^verbatim>\<open>csv.DictReader\<close> is a dictionary from column names to values. A column that
  the header does not have is a key the dictionary does not have (\<open>row k = None\<close>); a column
  of the header that a short line does not reach has the Python value \<^verbatim>\<open>None\<close>
  (\<open>row k = Some None\<close>); otherwise the value is a string (\<open>row k = Some (Some s)\<close>).
\<close>

type_synonym row = "string \<rightharpoonup> string option"

text \<open>\<^verbatim>\<open>row.get(k)\<close>: the value, or \<^verbatim>\<open>None\<close> for a key that is not there.\<close>

definition row_get :: "row \<Rightarrow> string \<Rightarrow> string option" where
  "row_get r k = (case r k of None \<Rightarrow> None | Some v \<Rightarrow> v)"

text \<open>\<^verbatim>\<open>row[k]\<close>: raises \<^verbatim>\<open>KeyError\<close> for a key that is not there.\<close>

definition row_item :: "row \<Rightarrow> string \<Rightarrow> error + string option" where
  "row_item r k = (case r k of None \<Rightarrow> Inl (KeyError k) | Some v \<Rightarrow> Inr v)"

datatype date = Date (date_year: int) (date_month: int) (date_day: int)

text \<open>
  A Python \<^verbatim>\<open>set\<close> of strings is a list of its elements in the order in which the set
  iterates; Python does not specify that order, so the theorems below speak about the
  elements (\<open>set\<close>) and the number (\<open>length\<close>) of what is built from an iteration.
\<close>

type_synonym pyset = "string list"

text \<open>
  What the script takes from its surroundings. \<open>url_div a b\<close> is \<^verbatim>\<open>str(URL(a) / b)\<close> of
  the urlpath library and \<open>dedent\<close> is \<^verbatim>\<open>textwrap.dedent\<close>. \<open>convert_str_to_date\<close> is
  imported from \<^verbatim>\<open>deafrica.utils\<close>. \<open>africa_pathrows\<close> is the set read from
  \<^verbatim>\<open>AFRICA_GZ_PATHROWS_URL\<close>, \<open>list_inventory sat_prefix\<close> the keys that
  \<^verbatim>\<open>odc.aws.inventory.list_inventory\<close> yields for \<^verbatim>\<open>contains=sat_prefix\<close>,
  \<open>bulk_rows file_name\<close> the rows that \<^verbatim>\<open>csv.DictReader\<close> reads from the bulk file
  that \<^verbatim>\<open>download_file_to_tmp\<close> of \<^verbatim>\<open>deafrica.utils\<close> has fetched, and \<open>date_string\<close>
  is \<^verbatim>\<open>datetime.now().strftime("%Y-%m-%d")\<close>.
\<close>

record gap_env =
  url_div :: "string \<Rightarrow> string \<Rightarrow> string"
  dedent :: "string \<Rightarrow> string"
  convert_str_to_date :: "string option \<Rightarrow> error + date"
  africa_pathrows :: "int set"
  list_inventory :: "string \<Rightarrow> string list"
  bulk_rows :: "string option \<Rightarrow> row list"
  date_string :: string

definition FILES :: "string \<rightharpoonup> string" where
  "FILES = [''landsat_8'' \<mapsto> ''LANDSAT_OT_C2_L2.csv.gz'',
            ''landsat_7'' \<mapsto> ''LANDSAT_ETM_C2_L2.csv.gz'',
            ''landsat_5'' \<mapsto> ''LANDSAT_TM_C2_L2.csv.gz'']"

definition USGS_S3_BUCKET_PATH :: string where
  "USGS_S3_BUCKET_PATH = ''s3://usgs-landsat''"

subsection \<open>\<^verbatim>\<open>get_and_filter_keys_from_files\<close>\<close>

text \<open>
  \<^verbatim>\<open>build_path\<close> (lines 60 to 74). The fields are read with \<^verbatim>\<open>file_row[...]\<close>, in the
  order of the source: the sensor identifier, the date, then the arguments of
  \<^verbatim>\<open>format\<close>. A method call on \<^verbatim>\<open>None\<close> raises \<^verbatim>\<open>AttributeError\<close>; \<^verbatim>\<open>format\<close> writes
  \<^verbatim>\<open>None\<close> as the text \<^verbatim>\<open>None\<close>.
\<close>

definition build_path :: "gap_env \<Rightarrow> row \<Rightarrow> error + string" where
  "build_path env file_row =
     (case row_item file_row ''Sensor Identifier'' of
        Inl e \<Rightarrow> Inl e
      | Inr None \<Rightarrow> Inl AttributeError
      | Inr (Some sensor) \<Rightarrow>
     (let identifier = replace_char CHR ''_'' CHR ''-'' (py_lower sensor) in
      case row_item file_row ''Date Acquired'' of
        Inl e \<Rightarrow> Inl e
      | Inr acquired \<Rightarrow>
     (case convert_str_to_date env acquired of
        Inl e \<Rightarrow> Inl e
      | Inr d \<Rightarrow>
     (let year_acquired = date_year d in
      case row_item file_row ''WRS Path'' of
        Inl e \<Rightarrow> Inl e
      | Inr None \<Rightarrow> Inl AttributeError
      | Inr (Some wrs_path) \<Rightarrow>
     (case row_item file_row ''WRS Row'' of
        Inl e \<Rightarrow> Inl e
      | Inr None \<Rightarrow> Inl AttributeError
      | Inr (Some wrs_row) \<Rightarrow>
     (case row_item file_row ''Display ID'' of
        Inl e \<Rightarrow> Inl e
      | Inr display_id \<Rightarrow>
          Inr (''collection02/level-2/standard/'' @ identifier @ ''/''
               @ str_of_int year_acquired @ ''/''
               @ zfill 3 wrs_path @ ''/'' @ zfill 3 wrs_row @ ''/''
               @ (case display_id of None \<Rightarrow> ''None'' | Some s \<Rightarrow> s) @ ''/'')))))))"

text \<open>
  The condition of the generator (lines 87 to 104), conjunct by conjunct; \<^verbatim>\<open>and\<close>
  evaluates its right side only when the left side holds. The last conjunct, the filter
  on Africa (lines 98 to 103), is \<open>africa_filter\<close>; its \<^verbatim>\<open>int(...)\<close> can raise.
\<close>

definition pathrow :: "string \<Rightarrow> string \<Rightarrow> string" where
  "pathrow wrs_path wrs_row = zfill 3 wrs_path @ zfill 3 wrs_row"

definition africa_filter :: "gap_env \<Rightarrow> row \<Rightarrow> error + bool" where
  "africa_filter env r =
     (case row_get r ''WRS Path'' of
        None \<Rightarrow> Inr False
      | Some wrs_path \<Rightarrow>
     (case row_get r ''WRS Row'' of
        None \<Rightarrow> Inr False
      | Some wrs_row \<Rightarrow>
     (case py_int (pathrow wrs_path wrs_row) of
        Inl e \<Rightarrow> Inl e
      | Inr n \<Rightarrow> Inr (n \<in> africa_pathrows env))))"

definition row_filter :: "gap_env \<Rightarrow> row \<Rightarrow> error + bool" where
  "row_filter env r =
     (case row_get r ''Satellite'' of
        None \<Rightarrow> Inr False
      | Some satellite \<Rightarrow>
          if satellite = ''LANDSAT_4'' then Inr False
          else if satellite = ''4'' then Inr False
          else (case row_get r ''Day/Night Indicator'' of
                  None \<Rightarrow> Inr False
                | Some day_night \<Rightarrow>
                    if py_upper day_night \<noteq> ''DAY'' then Inr False
                    else africa_filter env r))"

text \<open>
  The generator runs over the rows in order; the first row that raises ends it. The
  keys it yields go into \<^verbatim>\<open>set(...)\<close>.
\<close>

fun filtered_paths :: "gap_env \<Rightarrow> row list \<Rightarrow> error + string list" where
  "filtered_paths env [] = Inr []"
| "filtered_paths env (r # rs) =
     (case row_filter env r of
        Inl e \<Rightarrow> Inl e
      | Inr keep \<Rightarrow>
          if keep
          then (case build_path env r of
                  Inl e \<Rightarrow> Inl e
                | Inr key \<Rightarrow>
                    (case filtered_paths env rs of
                       Inl e \<Rightarrow> Inl e
                     | Inr keys \<Rightarrow> Inr (key # keys)))
          else filtered_paths env rs)"

definition get_and_filter_keys_from_files :: "gap_env \<Rightarrow> string option \<Rightarrow> error + pyset" where
  "get_and_filter_keys_from_files env file_path =
     (case filtered_paths env (bulk_rows env file_path) of
        Inl e \<Rightarrow> Inl e
      | Inr keys \<Rightarrow> Inr (remdups keys))"

subsection \<open>\<^verbatim>\<open>get_and_filter_keys\<close>\<close>

definition get_and_filter_keys :: "gap_env \<Rightarrow> string \<Rightarrow> error + pyset" where
  "get_and_filter_keys env landsat =
     (let sat_prefix =
            (if landsat = ''landsat_8'' then Some ''LC08''
             else if landsat = ''landsat_7'' then Some ''LE07''
             else if landsat = ''landsat_5'' then Some ''LT05''
             else None)
      in case sat_prefix of
           None \<Rightarrow> Inl (Exception (''Informed satellite '' @ landsat @ '' not supported''))
         | Some p \<Rightarrow>
             Inr (remdups (map (\<lambda>key. rsplit1_head CHR ''/'' key @ ''/'') (list_inventory env p))))"


subsection \<open>\<^verbatim>\<open>generate_buckets_diff\<close>\<close>

text \<open>
  \<^verbatim>\<open>missing_scenes\<close> is the set \<^verbatim>\<open>source_paths\<close> itself under a forced update and a list
  otherwise; \<^verbatim>\<open>len\<close> takes both, \<^verbatim>\<open>json.dumps\<close> raises \<^verbatim>\<open>TypeError\<close> on a set.
\<close>

datatype scenes = SceneSet pyset | SceneList "string list"

fun scenes_len :: "scenes \<Rightarrow> nat" where
  "scenes_len (SceneSet xs) = length xs"
| "scenes_len (SceneList xs) = length xs"

record gap_report =
  orphan :: "string list"
  missing :: "string list"

definition json_dumps :: "string list \<Rightarrow> scenes \<Rightarrow> error + gap_report" where
  "json_dumps orphaned_scenes missing_scenes =
     (case missing_scenes of
        SceneSet xs \<Rightarrow> Inl TypeError
      | SceneList xs \<Rightarrow> Inr \<lparr>orphan = orphaned_scenes, missing = xs\<rparr>)"

text \<open>
  What a run does to the world, in order: objects put by \<^verbatim>\<open>s3_dump\<close>, the summary
  written by \<^verbatim>\<open>log.info(message)\<close>, and calls of \<^verbatim>\<open>send_slack_notification\<close>. A put
  is the write the storage client performs; the other log lines are left out.
\<close>

datatype event =
    S3Dump string gap_report
  | LogMessage string
  | SlackNotification string string string

text \<open>Lines 188 to 211: the two collections.\<close>

definition scenes_diff ::
  "gap_env \<Rightarrow> string \<Rightarrow> bool \<Rightarrow> pyset \<Rightarrow> pyset \<Rightarrow> scenes \<times> string list" where
  "scenes_diff env bucket_name update_stac source_paths dest_paths =
     (if update_stac then (SceneSet source_paths, [])
      else (SceneList (map (url_div env USGS_S3_BUCKET_PATH)
                           (filter (\<lambda>path. path \<notin> set dest_paths) source_paths)),
            map (url_div env (''s3://'' @ bucket_name))
                (filter (\<lambda>path. path \<notin> set source_paths) dest_paths)))"

text \<open>The f-string of lines 241 to 246, before \<^verbatim>\<open>dedent\<close>.\<close>

definition summary_text :: "string \<Rightarrow> string \<Rightarrow> nat \<Rightarrow> nat \<Rightarrow> string \<Rightarrow> string" where
  "summary_text satellite_name environment n_missing n_orphaned report_output =
     ''*'' @ py_upper satellite_name @ '' GAP REPORT - '' @ environment @ ''*'' @ [CHR 0x0A]
     @ '' Missing Scenes: '' @ str_of_nat n_missing @ [CHR 0x0A]
     @ ''Orphan Scenes: '' @ str_of_nat n_orphaned @ [CHR 0x0A]
     @ ''Report: '' @ report_output @ [CHR 0x0A]"

text \<open>Lines 155 to 159 and 186, and 213 to 259: the report, the summary and the threshold.\<close>

definition emit_report ::
  "gap_env \<Rightarrow> string \<Rightarrow> string \<Rightarrow> bool \<Rightarrow> string option \<Rightarrow> scenes \<Rightarrow> string list
     \<Rightarrow> event list \<times> (error + unit)" where
  "emit_report env bucket_name satellite_name update_stac notification_url
       missing_scenes orphaned_scenes =
     (let landsat_status_report_path = ''s3://'' @ bucket_name @ ''/status-report/'';
          landsat_status_report_url =
            ''https://'' @ bucket_name @ ''.s3.af-south-1.amazonaws.com/status-report/'';
          environment = (if str_contains ''dev'' bucket_name then ''DEV'' else ''PDS'');
          found = (scenes_len missing_scenes > 0 \<or> length orphaned_scenes > 0);
          output_filename =
            (if found
             then (if \<not> update_stac
                   then satellite_name @ ''_'' @ date_string env @ ''_gap_report.json''
                   else date_string env @ ''_gap_report_update.json'')
             else ''No missing scenes were found'');
          dumped =
            (if found
             then (case json_dumps orphaned_scenes missing_scenes of
                     Inl e \<Rightarrow> Inl e
                   | Inr missing_orphan_scenes_json \<Rightarrow>
                       Inr [S3Dump (url_div env landsat_status_report_path output_filename)
                                   missing_orphan_scenes_json])
             else Inr [])
      in case dumped of
           Inl e \<Rightarrow> ([], Inl e)
         | Inr puts \<Rightarrow>
             (let report_output =
                    (if found then url_div env landsat_status_report_url output_filename
                     else output_filename);
                  message =
                    dedent env (summary_text satellite_name environment
                                  (scenes_len missing_scenes) (length orphaned_scenes)
                                  report_output)
              in if \<not> update_stac
                    \<and> (scenes_len missing_scenes > 200 \<or> length orphaned_scenes > 200)
                 then (puts @ [LogMessage message]
                         @ (case notification_url of
                              None \<Rightarrow> []
                            | Some url \<Rightarrow>
                                [SlackNotification url (satellite_name @ '' Gap Report'') message]),
                       Inl (Exception (''More than 200 scenes were found '' @ [CHR 0x0A]
                                       @ '' '' @ message)))
                 else (puts @ [LogMessage message], Inr ())))"

text \<open>
  Lines 186 to 259 as one function of the two key sets: \<open>source_paths\<close> is the expected
  set, from the bulk file, and \<open>dest_paths\<close> the observed set, from the inventory.
\<close>

definition reconcile ::
  "gap_env \<Rightarrow> string \<Rightarrow> string \<Rightarrow> bool \<Rightarrow> string option \<Rightarrow> pyset \<Rightarrow> pyset
     \<Rightarrow> event list \<times> (error + unit)" where
  "reconcile env bucket_name satellite_name update_stac notification_url source_paths dest_paths =
     (case scenes_diff env bucket_name update_stac source_paths dest_paths of
        (missing_scenes, orphaned_scenes) \<Rightarrow>
          emit_report env bucket_name satellite_name update_stac notification_url
            missing_scenes orphaned_scenes)"

text \<open>The whole function: the two key sets are read first, the inventory before the bulk file.\<close>

definition generate_buckets_diff ::
  "gap_env \<Rightarrow> string \<Rightarrow> string \<Rightarrow> string option \<Rightarrow> bool \<Rightarrow> string option
     \<Rightarrow> event list \<times> (error + unit)" where
  "generate_buckets_diff env bucket_name satellite_name file_name update_stac notification_url =
     (case get_and_filter_keys env satellite_name of
        Inl e \<Rightarrow> ([], Inl e)
      | Inr dest_paths \<Rightarrow>
     (case get_and_filter_keys_from_files env file_name of
        Inl e \<Rightarrow> ([], Inl e)
      | Inr source_paths \<Rightarrow>
          reconcile env bucket_name satellite_name update_stac notification_url
            source_paths dest_paths))"

definition landsat_gap_report_cli ::
  "gap_env \<Rightarrow> string \<Rightarrow> string \<Rightarrow> bool \<Rightarrow> string option \<Rightarrow> event list \<times> (error + unit)" where
  "landsat_gap_report_cli env bucket_name satellite update_stac slack_url =
     generate_buckets_diff env bucket_name satellite (FILES satellite) update_stac slack_url"



section \<open>The rainfall tiles: \<^verbatim>\<open>chirps.py\<close>\<close>

subsection \<open>Dates\<close>

text \<open>
  \<^verbatim>\<open>calendar.monthrange(year, month)[1]\<close> and \<^verbatim>\<open>datetime(year, month, day)\<close>: the first
  raises \<^verbatim>\<open>IllegalMonthError\<close> for a month outside 1 to 12. The second takes its
  arguments as C integers and raises \<^verbatim>\<open>OverflowError\<close> for one that does not fit in 32
  bits, before it raises \<^verbatim>\<open>ValueError\<close> for a date that does not exist or a year
  outside 1 to 9999.
\<close>

definition c_int :: "int \<Rightarrow> bool" where
  "c_int i = (- 2147483648 \<le> i \<and> i \<le> 2147483647)"

definition isleap :: "int \<Rightarrow> bool" where
  "isleap y = (y mod 4 = 0 \<and> (y mod 100 \<noteq> 0 \<or> y mod 400 = 0))"

definition mdays :: "int \<Rightarrow> int" where
  "mdays m = (if m = 2 then 28 else if m \<in> {4, 6, 9, 11} then 30 else 31)"

definition monthrange_end :: "int \<Rightarrow> int \<Rightarrow> error + int" where
  "monthrange_end y m =
     (if \<not> (1 \<le> m \<and> m \<le> 12) then Inl IllegalMonthError
      else Inr (mdays m + (if m = 2 \<and> isleap y then 1 else 0)))"

definition py_datetime :: "int \<Rightarrow> int \<Rightarrow> int \<Rightarrow> error + date" where
  "py_datetime y m d =
     (if \<not> (c_int y \<and> c_int m \<and> c_int d) then Inl OverflowError
      else if 1 \<le> y \<and> y \<le> 9999 \<and> 1 \<le> m \<and> m \<le> 12
         \<and> 1 \<le> d \<and> d \<le> mdays m + (if m = 2 \<and> isleap y then 1 else 0)
      then Inr (Date y m d) else Inl ValueError)"

subsection \<open>Data and surroundings\<close>

type_synonym raster = string

record stac_item =
  item_id :: string
  input_datetime :: date
  properties :: "(string \<times> string) list"
  self_href :: "string option"
  assets :: "(string \<times> string) list"
  links :: "(string \<times> string) list"

datatype s3_object = CogObject raster | StacObject stac_item

type_synonym s3 = "string \<rightharpoonup> s3_object"

text \<open>
  What the script takes from its surroundings: \<open>cog_translate in_data\<close> is the raster that
  \<^verbatim>\<open>rio_cogeo.cog_translate\<close> writes to the memory file, or the exception it raises;
  \<open>odc_uuid\<close> is \<^verbatim>\<open>str(odc.index.odc_uuid(algorithm, version, sources))\<close>; \<open>now\<close> is
  \<^verbatim>\<open>datetime_to_str(datetime.now())\<close>.
\<close>

record chirps_env =
  cog_translate :: "string \<Rightarrow> error + raster"
  odc_uuid :: "string \<Rightarrow> string \<Rightarrow> string list \<Rightarrow> string"
  now :: string

text \<open>
  What a run does, in order: the conversion, the objects put by \<^verbatim>\<open>s3_dump\<close>, and the
  notification of a failure with the file and the exception of the message.
\<close>

datatype chirps_event =
    CogTranslate string
  | PutObject string s3_object
  | SlackFailure string string string error

definition s3_head_object :: "s3 \<Rightarrow> string \<Rightarrow> bool" where
  "s3_head_object store url = (store url \<noteq> None)"

subsection \<open>\<^verbatim>\<open>download_and_cog_chirps\<close>\<close>

text \<open>Lines 46 to 62: the file strings.\<close>

record chirps_files =
  in_file :: string
  in_href :: string
  in_data :: string
  out_data :: string
  out_stac :: string

definition MONTHLY_URL_TEMPLATE :: "string \<Rightarrow> string" where
  "MONTHLY_URL_TEMPLATE file =
     ''https://data.chc.ucsb.edu/products/CHIRPS-2.0/africa_monthly/tifs/'' @ file"

definition DAILY_URL_TEMPLATE :: "string \<Rightarrow> string \<Rightarrow> string" where
  "DAILY_URL_TEMPLATE year file =
     ''https://data.chc.ucsb.edu/products/CHIRPS-2.0/africa_daily/tifs/p05/'' @ year @ ''/'' @ file"

definition file_strings ::
  "string \<Rightarrow> string \<Rightarrow> string \<Rightarrow> string \<Rightarrow> string \<Rightarrow> bool \<Rightarrow> chirps_files" where
  "file_strings year month day s3_monthly_dst s3_daily_dst daily =
     (if daily
      then (let file = ''chirps-v2.0.'' @ year @ ''.'' @ month @ ''.'' @ day @ ''.tif.gz'';
                href = DAILY_URL_TEMPLATE year file;
                s3_dst = rstrip_char CHR ''/'' s3_daily_dst
            in \<lparr>in_file = file, in_href = href, in_data = ''/vsigzip//vsicurl/'' @ href,
                out_data = s3_dst @ ''/'' @ year @ ''/chirps-v2.0_'' @ year @ ''.'' @ month
                           @ ''.'' @ day @ ''.tif'',
                out_stac = s3_dst @ ''/'' @ year @ ''/chirps-v2.0_'' @ year @ ''.'' @ month
                           @ ''.'' @ day @ ''.stac-item.json''\<rparr>)
      else (let file = ''chirps-v2.0.'' @ year @ ''.'' @ month @ ''.tif.gz'';
                href = MONTHLY_URL_TEMPLATE file;
                s3_dst = rstrip_char CHR ''/'' s3_monthly_dst
            in \<lparr>in_file = file, in_href = href, in_data = ''/vsigzip//vsicurl/'' @ href,
                out_data = s3_dst @ ''/chirps-v2.0_'' @ year @ ''.'' @ month @ ''.tif'',
                out_stac = s3_dst @ ''/chirps-v2.0_'' @ year @ ''.'' @ month
                           @ ''.stac-item.json''\<rparr>))"

text \<open>
  Lines 83 to 132: the STAC document. The arguments of \<^verbatim>\<open>create_stac_item\<close> are evaluated
  in the order written, so the identifier before the date. The asset \<^verbatim>\<open>asset\<close> that
  \<^verbatim>\<open>create_stac_item\<close> makes is deleted and the asset \<^verbatim>\<open>rainfall\<close> put in its place; the
  link to the source is \<^verbatim>\<open>derived_from\<close>.
\<close>

definition stac_document ::
  "chirps_env \<Rightarrow> chirps_files \<Rightarrow> string \<Rightarrow> string \<Rightarrow> string \<Rightarrow> bool \<Rightarrow> error + stac_item" where
  "stac_document env files year month day daily =
     (if daily
      then (let ident = odc_uuid env ''chirps'' ''2.0'' [in_file files] in
            case py_int year of Inl e \<Rightarrow> Inl e | Inr y \<Rightarrow>
           (case py_int month of Inl e \<Rightarrow> Inl e | Inr m \<Rightarrow>
           (case py_int day of Inl e \<Rightarrow> Inl e | Inr d \<Rightarrow>
           (case py_datetime y m d of Inl e \<Rightarrow> Inl e | Inr dt \<Rightarrow>
              Inr \<lparr>item_id = ident, input_datetime = dt,
                   properties =
                     [(''odc:processing_datetime'', now env),
                      (''odc:product'', ''rainfall_chirps_daily''),
                      (''start_datetime'', year @ ''-'' @ month @ ''-'' @ day @ ''T00:00:00Z''),
                      (''end_datetime'', year @ ''-'' @ month @ ''-'' @ day @ ''T23:59:59Z'')],
                   self_href = Some (out_stac files),
                   assets = [(''rainfall'', out_data files)],
                   links = [(''derived_from'', in_href files)]\<rparr>))))
      else (case py_int year of Inl e \<Rightarrow> Inl e | Inr y \<Rightarrow>
           (case py_int month of Inl e \<Rightarrow> Inl e | Inr m \<Rightarrow>
           (case monthrange_end y m of Inl e \<Rightarrow> Inl e | Inr end_day \<Rightarrow>
           (let ident = odc_uuid env ''chirps'' ''2.0'' [in_file files] in
            case py_datetime y m 15 of Inl e \<Rightarrow> Inl e | Inr dt \<Rightarrow>
              Inr \<lparr>item_id = ident, input_datetime = dt,
                   properties =
                     [(''odc:processing_datetime'', now env),
                      (''odc:product'', ''rainfall_chirps_monthly''),
                      (''start_datetime'', year @ ''-'' @ month @ ''-01T00:00:00Z''),
                      (''end_datetime'',
                         year @ ''-'' @ month @ ''-'' @ str_of_int end_day @ ''T23:59:59Z'')],
                   self_href = Some (out_stac files),
                   assets = [(''rainfall'', out_data files)],
                   links = [(''derived_from'', in_href files)]\<rparr>)))))"

text \<open>
  The handler of lines 149 to 156: any exception of the body is reported, to Slack when a
  URL is given, and the process ends with \<^verbatim>\<open>exit(1)\<close>.
\<close>

definition failed ::
  "s3 \<Rightarrow> chirps_event list \<Rightarrow> string option \<Rightarrow> string \<Rightarrow> error
     \<Rightarrow> s3 \<times> chirps_event list \<times> (error + unit)" where
  "failed store done slack_url file e =
     (store,
      done @ (case slack_url of
                None \<Rightarrow> []
              | Some url \<Rightarrow> [SlackFailure url ''Chirps Rainfall Monthly'' file e]),
      Inl (SystemExit 1))"

definition download_and_cog_chirps ::
  "chirps_env \<Rightarrow> s3 \<Rightarrow> string \<Rightarrow> string \<Rightarrow> string \<Rightarrow> string \<Rightarrow> string \<Rightarrow> bool \<Rightarrow> bool
     \<Rightarrow> string option \<Rightarrow> s3 \<times> chirps_event list \<times> (error + unit)" where
  "download_and_cog_chirps env store year month day s3_monthly_dst s3_daily_dst
       overwrite daily slack_url =
     (let files = file_strings year month day s3_monthly_dst s3_daily_dst daily in
      if \<not> overwrite \<and> s3_head_object store (out_stac files) then (store, [], Inr ())
      else (case cog_translate env (in_data files) of
              Inl e \<Rightarrow> failed store [CogTranslate (in_data files)] slack_url (in_file files) e
            | Inr mem_dst \<Rightarrow>
                (case stac_document env files year month day daily of
                   Inl e \<Rightarrow>
                     failed store [CogTranslate (in_data files)] slack_url (in_file files) e
                 | Inr item \<Rightarrow>
                     (store(out_data files \<mapsto> CogObject mem_dst,
                            out_stac files \<mapsto> StacObject item),
                      [CogTranslate (in_data files),
                       PutObject (out_data files) (CogObject mem_dst),
                       PutObject (out_stac files) (StacObject item)],
                      Inr ()))))"

text \<open>The number of conversions in a trace.\<close>

fun conversions :: "chirps_event list \<Rightarrow> nat" where
  "conversions [] = 0"
| "conversions (CogTranslate src # evs) = Suc (conversions evs)"
| "conversions (ev # evs) = conversions evs"


section \<open>Notions used to state the properties\<close>

text \<open>Strings of decimal digits and the number they write.\<close>

definition digit_val :: "char \<Rightarrow> nat" where
  "digit_val c = (case digit_of c of None \<Rightarrow> 0 | Some v \<Rightarrow> v)"

definition decimal :: "string \<Rightarrow> nat" where
  "decimal s = foldl (\<lambda>a c. 10 * a + digit_val c) 0 s"

text \<open>Surroundings and rows for the examples.\<close>

definition example_env :: gap_env where
  "example_env =
     \<lparr>url_div = (\<lambda>a b. a @ ''/'' @ b),
      dedent = (\<lambda>s. s),
      convert_str_to_date =
        (\<lambda>s. case s of None \<Rightarrow> Inl TypeError | Some t \<Rightarrow> Inr (Date 2021 1 2)),
      africa_pathrows = {3045, 12007},
      list_inventory = (\<lambda>p. []),
      bulk_rows = (\<lambda>f. []),
      date_string = ''2021-05-01''\<rparr>"

text \<open>
  The row a short line gives when the display identifier is the last column of the
  header: the key is there, the value is \<^verbatim>\<open>None\<close>.
\<close>

definition short_row :: row where
  "short_row =
     [''Satellite'' \<mapsto> Some ''8'',
      ''Day/Night Indicator'' \<mapsto> Some ''Day'',
      ''WRS Path'' \<mapsto> Some ''3'',
      ''WRS Row'' \<mapsto> Some ''45'',
      ''Sensor Identifier'' \<mapsto> Some ''OLI_TIRS'',
      ''Date Acquired'' \<mapsto> Some ''2021-01-02'',
      ''Display ID'' \<mapsto> None]"

definition example_row :: row where
  "example_row =
     [''Satellite'' \<mapsto> Some ''8'',
      ''Day/Night Indicator'' \<mapsto> Some ''Day'',
      ''WRS Path'' \<mapsto> Some ''3'',
      ''WRS Row'' \<mapsto> Some ''45'',
      ''Sensor Identifier'' \<mapsto> Some ''OLI_TIRS'',
      ''Date Acquired'' \<mapsto> Some ''2021-01-02'']"

definition example_chirps_env :: chirps_env where
  "example_chirps_env =
     \<lparr>cog_translate = (\<lambda>src. Inr (''cog of '' @ src)),
      odc_uuid = (\<lambda>algorithm version sources. algorithm @ ''-'' @ version @ ''-'' @ concat sources),
      now = ''2021-05-01T00:00:00Z''\<rparr>"

section \<open>Properties of the gap report\<close>

subsection \<open>The two collections\<close>

text \<open>
  Once the inventory has given the observed set and the bulk file the expected set,
  \<^verbatim>\<open>generate_buckets_diff\<close> is \<open>reconcile\<close> of the two.
\<close>

lemma generate_buckets_diff_reconcile:
  assumes "get_and_filter_keys env satellite_name = Inr observed"
    and "get_and_filter_keys_from_files env file_name = Inr expected"
  shows "generate_buckets_diff env bucket_name satellite_name file_name update_stac notification_url
           = reconcile env bucket_name satellite_name update_stac notification_url
               expected observed"
  using assms by (simp add: generate_buckets_diff_def)

text \<open>
  Claim C1. Without the forced update, for every expected set and every observed set:
  the missing scenes are the keys of the expected set that the observed set does not
  have, each joined to the root of the USGS bucket, and the orphaned scenes are the keys
  of the observed set that the expected set does not have, each joined to the root of the
  bucket of the report. For the expected set a/, b/, c/ and the observed set b/, d/ the
  missing scenes are a/ and c/ under the USGS root and the only orphan is d/ under the
  root of the bucket.
\<close>

theorem scenes_diff_missing_orphan:
  "(\<exists>ms os. scenes_diff env bucket_name False expected observed = (SceneList ms, os)
      \<and> set ms = url_div env USGS_S3_BUCKET_PATH ` (set expected - set observed)
      \<and> set os = url_div env (''s3://'' @ bucket_name) ` (set observed - set expected))
   \<and> scenes_diff env bucket_name False [''a/'', ''b/'', ''c/''] [''b/'', ''d/'']
       = (SceneList [url_div env USGS_S3_BUCKET_PATH ''a/'',
                     url_div env USGS_S3_BUCKET_PATH ''c/''],
          [url_div env (''s3://'' @ bucket_name) ''d/''])"
proof
  show "\<exists>ms os. scenes_diff env bucket_name False expected observed = (SceneList ms, os)
      \<and> set ms = url_div env USGS_S3_BUCKET_PATH ` (set expected - set observed)
      \<and> set os = url_div env (''s3://'' @ bucket_name) ` (set observed - set expected)"
    by (auto simp: scenes_diff_def)
next
  show "scenes_diff env bucket_name False [''a/'', ''b/'', ''c/''] [''b/'', ''d/'']
       = (SceneList [url_div env USGS_S3_BUCKET_PATH ''a/'',
                     url_div env USGS_S3_BUCKET_PATH ''c/''],
          [url_div env (''s3://'' @ bucket_name) ''d/''])"
    by (simp add: scenes_diff_def)
qed

text \<open>
  Lines 188 to 191: under the forced update no difference is computed; the missing
  scenes are the set of the expected keys itself and there is no orphan.
\<close>

lemma scenes_diff_forced:
  "scenes_diff env bucket_name True expected observed = (SceneSet expected, [])"
  by (simp add: scenes_diff_def)

subsection \<open>The report and the threshold\<close>

text \<open>
  Claim C2. The claim is that under the forced update the reconciliation declares
  every expected scene missing and no orphan, whatever the observed set holds. The code
  assigns the two collections so, and chooses the name of a forced report for them, but
  it hands the set of the expected keys to \<^verbatim>\<open>json.dumps\<close>, which takes no set: for
  every expected set that is not empty and every observed set the forced run raises
  \<^verbatim>\<open>TypeError\<close>, and it has then put no report in the bucket and written no summary.
\<close>

theorem forced_update_raises_TypeError:
  assumes "expected \<noteq> []"
  shows "reconcile env bucket_name satellite_name True notification_url expected observed
           = ([], Inl TypeError)"
proof -
  have diff: "scenes_diff env bucket_name True expected observed = (SceneSet expected, [])"
    by (rule scenes_diff_forced)
  from assms have found: "scenes_len (SceneSet expected) > 0" by simp
  have dumps: "json_dumps [] (SceneSet expected) = Inl TypeError"
    by (simp add: json_dumps_def)
  from found dumps
  have "emit_report env bucket_name satellite_name True notification_url (SceneSet expected) []
          = ([], Inl TypeError)"
    by (simp add: emit_report_def Let_def)
  with diff show ?thesis by (simp add: reconcile_def)
qed

theorem forced_update_raises_TypeError_witness:
  "reconcile example_env ''deafrica-landsat-dev'' ''landsat_8'' True None [''a/''] []
     = ([], Inl TypeError)
   \<and> reconcile example_env ''deafrica-landsat-dev'' ''landsat_8'' True None [''a/''] [''a/'']
     = ([], Inl TypeError)"
proof -
  have ne: "[''a/''] \<noteq> ([] :: string list)" by simp
  from forced_update_raises_TypeError [OF ne, of example_env "''deafrica-landsat-dev''"
         "''landsat_8''" None "[]"]
       forced_update_raises_TypeError [OF ne, of example_env "''deafrica-landsat-dev''"
         "''landsat_8''" None "[''a/'']"]
  show ?thesis by simp
qed

text \<open>
  Claim C3. Without the forced update, for every expected and observed set: when more
  than 200 scenes are missing or more than 200 are orphaned, the report is put in the
  bucket and the summary is written first, and then the run raises an exception whose
  text ends with that summary; when neither count is above 200 (so at exactly 200
  missing scenes) the run ends without an exception, and 201 missing scenes raise.
\<close>

theorem threshold_report_then_exception:
  assumes "scenes_diff env bucket_name False expected observed = (SceneList ms, os)"
  shows "(length ms > 200 \<or> length os > 200 \<longrightarrow>
            (\<exists>message notified.
               reconcile env bucket_name satellite_name False notification_url expected observed
                 = (S3Dump (url_div env (''s3://'' @ bucket_name @ ''/status-report/'')
                              (satellite_name @ ''_'' @ date_string env @ ''_gap_report.json''))
                           \<lparr>orphan = os, missing = ms\<rparr>
                      # LogMessage message # notified,
                    Inl (Exception (''More than 200 scenes were found '' @ [CHR 0x0A]
                                    @ '' '' @ message)))
               \<and> message = dedent env (summary_text satellite_name
                     (if str_contains ''dev'' bucket_name then ''DEV'' else ''PDS'')
                     (length ms) (length os)
                     (url_div env
                        (''https://'' @ bucket_name @ ''.s3.af-south-1.amazonaws.com/status-report/'')
                        (satellite_name @ ''_'' @ date_string env @ ''_gap_report.json'')))))
       \<and> (length ms \<le> 200 \<and> length os \<le> 200 \<longrightarrow>
            snd (reconcile env bucket_name satellite_name False notification_url expected observed)
              = Inr ())"
  using assms
  by (auto simp: reconcile_def emit_report_def json_dumps_def Let_def split: option.splits)

theorem threshold_report_then_exception_witness:
  "(\<exists>url report events message.
      reconcile example_env ''deafrica-landsat-dev'' ''landsat_8'' False None
          (map str_of_nat [0..<201]) []
        = (S3Dump url report # events, Inl (Exception message))
      \<and> length (missing report) = 201)
   \<and> snd (reconcile example_env ''deafrica-landsat-dev'' ''landsat_8'' False None
             (map str_of_nat [0..<200]) []) = Inr ()"
proof -
  have d201: "scenes_diff example_env ''deafrica-landsat-dev'' False (map str_of_nat [0..<201]) []
         = (SceneList (map (url_div example_env USGS_S3_BUCKET_PATH) (map str_of_nat [0..<201])), [])"
    by (simp add: scenes_diff_def)
  have d200: "scenes_diff example_env ''deafrica-landsat-dev'' False (map str_of_nat [0..<200]) []
         = (SceneList (map (url_div example_env USGS_S3_BUCKET_PATH) (map str_of_nat [0..<200])), [])"
    by (simp add: scenes_diff_def)
  from threshold_report_then_exception [OF d201, of "''landsat_8''" None]
  have "\<exists>url report events message.
      reconcile example_env ''deafrica-landsat-dev'' ''landsat_8'' False None
          (map str_of_nat [0..<201]) []
        = (S3Dump url report # events, Inl (Exception message))
      \<and> length (missing report) = 201"
    by auto
  moreover from threshold_report_then_exception [OF d200, of "''landsat_8''" None]
  have "snd (reconcile example_env ''deafrica-landsat-dev'' ''landsat_8'' False None
             (map str_of_nat [0..<200]) []) = Inr ()"
    by simp
  ultimately show ?thesis by blast
qed

text \<open>
  Claim C4. For every run, forced or not, in which no scene is missing and none is
  orphaned: nothing is put in the bucket, the run ends without an exception, and the
  only thing it leaves is the summary, whose report line carries the text
  \<^verbatim>\<open>No missing scenes were found\<close> where the URL of the report would be.
\<close>

theorem empty_diff_no_report:
  assumes "scenes_diff env bucket_name update_stac expected observed
             = (missing_scenes, orphaned_scenes)"
    and "scenes_len missing_scenes = 0" and "orphaned_scenes = []"
  shows "reconcile env bucket_name satellite_name update_stac notification_url expected observed
           = ([LogMessage (dedent env (summary_text satellite_name
                 (if str_contains ''dev'' bucket_name then ''DEV'' else ''PDS'') 0 0
                 ''No missing scenes were found''))],
              Inr ())"
  using assms
  by (simp add: reconcile_def emit_report_def Let_def)

theorem empty_diff_no_report_witness:
  "reconcile example_env ''deafrica-landsat-dev'' ''landsat_8'' False None [''a/''] [''a/'']
     = ([LogMessage (dedent example_env (summary_text ''landsat_8'' ''DEV'' 0 0
                       ''No missing scenes were found''))], Inr ())
   \<and> reconcile example_env ''deafrica-landsat-dev'' ''landsat_8'' True None [] [''a/'']
     = ([LogMessage (dedent example_env (summary_text ''landsat_8'' ''DEV'' 0 0
                       ''No missing scenes were found''))], Inr ())"
proof -
  have a: "scenes_diff example_env ''deafrica-landsat-dev'' False [''a/''] [''a/'']
             = (SceneList [], [])"
    by (simp add: scenes_diff_def)
  have b: "scenes_diff example_env ''deafrica-landsat-dev'' True [] [''a/''] = (SceneSet [], [])"
    by (simp add: scenes_diff_def)
  have dev: "str_contains ''dev'' ''deafrica-landsat-dev''" by code_simp
  show ?thesis
    using empty_diff_no_report [OF a, of "''landsat_8''" None]
          empty_diff_no_report [OF b, of "''landsat_8''" None] dev
    by simp
qed

subsection \<open>Decimal strings\<close>

lemma is_digit_iff: "is_digit c \<longleftrightarrow> c \<in> set ''0123456789''"
  by (auto simp: is_digit_def digit_of_def digit_chars_def)

lemma is_digit_not_special:
  "is_digit c \<Longrightarrow> c \<noteq> CHR ''_'' \<and> c \<noteq> CHR ''-'' \<and> c \<noteq> CHR ''+'' \<and> \<not> is_space c"
  by (auto simp: is_digit_iff is_space_def)

lemma digit_of_digit: "is_digit c \<Longrightarrow> digit_of c = Some (digit_val c)"
  by (auto simp: is_digit_def digit_val_def)

lemma int_digits_decimal:
  "list_all is_digit s \<Longrightarrow> int_digits acc s = Some (foldl (\<lambda>a c. 10 * a + digit_val c) acc s)"
proof (induction acc s rule: int_digits.induct)
  case (1 acc)
  then show ?case by simp
next
  case (2 acc c)
  then show ?case by (simp add: digit_of_digit)
next
  case (3 acc c d ds)
  then have c: "is_digit c" and rest: "list_all is_digit (d # ds)" by simp_all
  from c have "c \<noteq> CHR ''_''" using is_digit_not_special by blast
  with 3 c rest show ?case by (simp add: digit_of_digit)
qed

lemma int_unsigned_decimal:
  "s \<noteq> [] \<Longrightarrow> list_all is_digit s \<Longrightarrow> int_unsigned s = Some (decimal s)"
  by (cases s) (simp_all add: int_unsigned_def decimal_def digit_of_digit int_digits_decimal)

lemma strip_digits:
  assumes "s \<noteq> []" and "list_all is_digit s"
  shows "strip s = s"
proof -
  from assms have "\<not> is_space (hd s)"
    by (cases s) (auto dest: is_digit_not_special)
  with assms have a: "dropWhile is_space s = s" by (cases s) auto
  from assms have "is_digit (last s)" by (simp add: list_all_iff)
  then have "\<not> is_space (hd (rev s))" using assms(1)
    by (simp add: hd_rev is_digit_not_special)
  with assms have "dropWhile is_space (rev s) = rev s" by (cases "rev s") auto
  with a show ?thesis by (simp add: strip_def)
qed

lemma py_int_decimal:
  assumes "s \<noteq> []" and "list_all is_digit s" and "length s \<le> int_max_str_digits"
  shows "py_int s = Inr (int (decimal s))"
proof -
  obtain c cs where s: "s = c # cs" using assms(1) by (cases s) auto
  with assms have "is_digit c" by simp
  then have sign: "c \<noteq> CHR ''-''" "c \<noteq> CHR ''+''" using is_digit_not_special by blast+
  have "length (filter is_digit s) \<le> length s" by (rule length_filter_le)
  with assms(3) have few: "\<not> int_max_str_digits < length (filter is_digit s)" by linarith
  have st: "strip s = s" using assms(1,2) by (rule strip_digits)
  have "int_unsigned s = Some (decimal s)" using assms(1,2) by (rule int_unsigned_decimal)
  with sign few st s show ?thesis by (simp add: py_int_def)
qed

lemma zfill_digits:
  assumes "list_all is_digit s" and "length s \<le> 3"
  shows "zfill 3 s = replicate (3 - length s) CHR ''0'' @ s"
proof (cases s)
  case Nil
  then show ?thesis by (simp add: zfill_def)
next
  case (Cons c cs)
  with assms have "is_digit c" by simp
  then have "c \<noteq> CHR ''-''" "c \<noteq> CHR ''+''" using is_digit_not_special by blast+
  with Cons assms show ?thesis by (auto simp: zfill_def)
qed

lemma foldl_decimal:
  "foldl (\<lambda>a c. 10 * a + digit_val c) acc s = acc * 10 ^ length s + decimal s"
proof (induction s arbitrary: acc)
  case Nil
  then show ?case by (simp add: decimal_def)
next
  case (Cons c cs)
  have "foldl (\<lambda>a c. 10 * a + digit_val c) acc (c # cs)
          = (10 * acc + digit_val c) * 10 ^ length cs + decimal cs"
    using Cons.IH [of "10 * acc + digit_val c"] by simp
  moreover have "decimal (c # cs) = digit_val c * 10 ^ length cs + decimal cs"
    using Cons.IH [of "digit_val c"] by (simp add: decimal_def)
  ultimately show ?case by (simp add: algebra_simps)
qed

lemma decimal_append: "decimal (a @ b) = decimal a * 10 ^ length b + decimal b"
  using foldl_decimal [of "decimal a" b] by (simp add: decimal_def)

lemma decimal_zeros: "decimal (replicate k CHR ''0'' @ s) = decimal s"
proof (induction k)
  case 0
  then show ?case by simp
next
  case (Suc k)
  have "decimal (CHR ''0'' # replicate k CHR ''0'' @ s)
          = foldl (\<lambda>a c. 10 * a + digit_val c) 0 (replicate k CHR ''0'' @ s)"
    by (simp add: decimal_def digit_val_def digit_of_def digit_chars_def)
  with Suc show ?case by (simp add: decimal_def)
qed

lemma pathrow_digits:
  assumes "list_all is_digit p" and "length p \<le> 3" and "list_all is_digit q" and "length q \<le> 3"
  shows "length (pathrow p q) = 6" and "list_all is_digit (pathrow p q)"
    and "py_int (pathrow p q) = Inr (int (1000 * decimal p + decimal q))"
proof -
  have z: "is_digit CHR ''0''" by (simp add: is_digit_iff)
  have pq: "pathrow p q = (replicate (3 - length p) CHR ''0'' @ p)
                            @ (replicate (3 - length q) CHR ''0'' @ q)"
    using assms by (simp add: pathrow_def zfill_digits)
  show len: "length (pathrow p q) = 6" using assms by (simp add: pq)
  show dig: "list_all is_digit (pathrow p q)"
    using assms z by (auto simp: pq list_all_iff)
  from len have ne: "pathrow p q \<noteq> []" by auto
  from len have few: "length (pathrow p q) \<le> int_max_str_digits"
    by (simp add: int_max_str_digits_def)
  have "decimal (pathrow p q) = decimal p * 10 ^ 3 + decimal q"
    unfolding pq using assms(4) by (simp add: decimal_append [of _ "replicate (3 - length q) CHR ''0'' @ q"] decimal_zeros)
  then show "py_int (pathrow p q) = Inr (int (1000 * decimal p + decimal q))"
    using py_int_decimal [OF ne dig few] by simp
qed

lemma length_zfill: "length (zfill w s) = max w (length s)"
  by (cases s) (auto simp: zfill_def)

lemma upper_char_D: "upper_char c = CHR ''D'' \<longleftrightarrow> c = CHR ''d'' \<or> c = CHR ''D''"
  by (auto simp: upper_char_def ascii_lowercase_def ascii_uppercase_def split: if_splits)

lemma upper_char_A: "upper_char c = CHR ''A'' \<longleftrightarrow> c = CHR ''a'' \<or> c = CHR ''A''"
  by (auto simp: upper_char_def ascii_lowercase_def ascii_uppercase_def split: if_splits)

lemma upper_char_Y: "upper_char c = CHR ''Y'' \<longleftrightarrow> c = CHR ''y'' \<or> c = CHR ''Y''"
  by (auto simp: upper_char_def ascii_lowercase_def ascii_uppercase_def split: if_splits)

lemma py_upper_DAY:
  "py_upper s = ''DAY'' \<longleftrightarrow>
     (\<exists>a b c. s = [a, b, c] \<and> (a = CHR ''d'' \<or> a = CHR ''D'')
        \<and> (b = CHR ''a'' \<or> b = CHR ''A'') \<and> (c = CHR ''y'' \<or> c = CHR ''Y''))"
proof -
  have "py_upper s = ''DAY'' \<longleftrightarrow>
          (\<exists>a b c. s = [a, b, c] \<and> upper_char a = CHR ''D'' \<and> upper_char b = CHR ''A''
             \<and> upper_char c = CHR ''Y'')"
    by (auto simp: py_upper_def map_eq_Cons_conv)
  then show ?thesis by (simp add: upper_char_D upper_char_A upper_char_Y)
qed

subsection \<open>The filter of the bulk file\<close>

text \<open>
  Claim C5. For every row that has a WRS path and a WRS row: the filter on Africa reads
  the concatenation of the path and the row, each filled with zeros to three characters,
  as an integer, and the row passes exactly when that integer is in the list of Africa;
  for a path and a row of at most three decimal digits each the integer is 1000 times the
  path plus the row. The path 3 with the row 45 is looked up as 3045, the path 12 with the
  row 7 as 12007.
\<close>

theorem africa_filter_pathrow:
  assumes "row_get r ''WRS Path'' = Some p" and "row_get r ''WRS Row'' = Some q"
  shows "(\<forall>n. py_int (zfill 3 p @ zfill 3 q) = Inr n
            \<longrightarrow> africa_filter env r = Inr (n \<in> africa_pathrows env))
       \<and> (list_all is_digit p \<and> length p \<le> 3 \<and> list_all is_digit q \<and> length q \<le> 3
            \<longrightarrow> africa_filter env r
                  = Inr (int (1000 * decimal p + decimal q) \<in> africa_pathrows env))
       \<and> py_int (zfill 3 ''3'' @ zfill 3 ''45'') = Inr 3045
       \<and> py_int (zfill 3 ''12'' @ zfill 3 ''7'') = Inr 12007"
proof -
  have general: "\<forall>n. py_int (zfill 3 p @ zfill 3 q) = Inr n
            \<longrightarrow> africa_filter env r = Inr (n \<in> africa_pathrows env)"
    using assms by (simp add: africa_filter_def pathrow_def)
  have digits: "list_all is_digit p \<and> length p \<le> 3 \<and> list_all is_digit q \<and> length q \<le> 3
            \<longrightarrow> africa_filter env r
                  = Inr (int (1000 * decimal p + decimal q) \<in> africa_pathrows env)"
    using assms pathrow_digits(3) [of p q] by (simp add: africa_filter_def)
  have e1: "py_int (zfill 3 ''3'' @ zfill 3 ''45'') = Inr 3045" by code_simp
  have e2: "py_int (zfill 3 ''12'' @ zfill 3 ''7'') = Inr 12007" by code_simp
  from general digits e1 e2 show ?thesis by blast
qed

theorem africa_filter_pathrow_witness:
  "row_get example_row ''WRS Path'' = Some ''3'' \<and> row_get example_row ''WRS Row'' = Some ''45''
   \<and> africa_filter example_env example_row = Inr True"
proof -
  have p: "row_get example_row ''WRS Path'' = Some ''3''"
    by (simp add: row_get_def example_row_def)
  have q: "row_get example_row ''WRS Row'' = Some ''45''"
    by (simp add: row_get_def example_row_def)
  have n: "py_int (zfill 3 ''3'' @ zfill 3 ''45'') = Inr 3045" by code_simp
  from africa_filter_pathrow [OF p q, of example_env] n
  have "africa_filter example_env example_row = Inr (3045 \<in> africa_pathrows example_env)"
    by blast
  then show ?thesis using p q by (simp add: example_env_def)
qed

text \<open>
  Claim C6, as amended. The concatenation of the filled path and the filled row has
  max(3, length of the path) plus max(3, length of the row) characters. It has exactly
  six characters when the path and the row have at most three characters each; when they
  are moreover decimal digits, the six characters are decimal digits and they write 1000
  times the path plus the row. A longer path or row is not cut, and the concatenation is
  then longer than six characters.
\<close>

theorem pathrow_length:
  "length (pathrow p q) = max 3 (length p) + max 3 (length q)
   \<and> (length p \<le> 3 \<and> length q \<le> 3 \<longrightarrow> length (pathrow p q) = 6)
   \<and> (list_all is_digit p \<and> length p \<le> 3 \<and> list_all is_digit q \<and> length q \<le> 3
        \<longrightarrow> list_all is_digit (pathrow p q)
            \<and> py_int (pathrow p q) = Inr (int (1000 * decimal p + decimal q)))
   \<and> (3 < length p \<or> 3 < length q \<longrightarrow> 6 < length (pathrow p q))"
proof -
  have len: "length (pathrow p q) = max 3 (length p) + max 3 (length q)"
    by (simp add: pathrow_def length_zfill)
  have six: "length p \<le> 3 \<and> length q \<le> 3 \<longrightarrow> length (pathrow p q) = 6"
    using len by auto
  have more: "3 < length p \<or> 3 < length q \<longrightarrow> 6 < length (pathrow p q)"
    using len by auto
  have digits: "list_all is_digit p \<and> length p \<le> 3 \<and> list_all is_digit q \<and> length q \<le> 3
        \<longrightarrow> list_all is_digit (pathrow p q)
            \<and> py_int (pathrow p q) = Inr (int (1000 * decimal p + decimal q))"
    using pathrow_digits(2,3) [of p q] by blast
  from len six more digits show ?thesis by blast
qed

theorem pathrow_length_witness:
  "length (pathrow ''3'' ''45'') = 6 \<and> py_int (pathrow ''3'' ''45'') = Inr 3045
   \<and> 6 < length (pathrow ''1234'' ''5'')"
proof -
  have d: "list_all is_digit ''3'' \<and> length ''3'' \<le> 3 \<and> list_all is_digit ''45''
            \<and> length ''45'' \<le> 3"
    by (simp add: is_digit_iff)
  have v: "int (1000 * decimal ''3'' + decimal ''45'') = 3045" by code_simp
  have l: "3 < length ''1234''" by simp
  from pathrow_length [of "''3''" "''45''"] d v pathrow_length [of "''1234''" "''5''"] l
  show ?thesis by simp
qed

text \<open>
  The claim as it was stated fails: a path of four characters is left as it is, and the
  concatenation with the filled row has seven characters.
\<close>

theorem pathrow_six_digits_counterexample:
  "pathrow ''1234'' ''5'' = ''1234005'' \<and> length (pathrow ''1234'' ''5'') \<noteq> 6"
  by code_simp

text \<open>
  Claim C7. For every row: a row whose satellite is \<^verbatim>\<open>4\<close> or \<^verbatim>\<open>LANDSAT_4\<close> is
  dropped; a row that is kept has a day/night indicator that is \<^verbatim>\<open>DAY\<close> in some
  mixture of upper and lower case, and a row with another indicator is dropped; a row
  without the satellite, the indicator, the WRS path or the WRS row (the key is not there,
  or its value is \<^verbatim>\<open>None\<close>) is dropped, and none of these raises; a dropped row does
  not change what the rows after it give.
\<close>

theorem row_filter_drops:
  "(row_get r ''Satellite'' = Some ''4'' \<or> row_get r ''Satellite'' = Some ''LANDSAT_4''
      \<longrightarrow> row_filter env r = Inr False)
   \<and> (row_filter env r = Inr True
      \<longrightarrow> (\<exists>a b c. row_get r ''Day/Night Indicator'' = Some [a, b, c]
             \<and> (a = CHR ''d'' \<or> a = CHR ''D'') \<and> (b = CHR ''a'' \<or> b = CHR ''A'')
             \<and> (c = CHR ''y'' \<or> c = CHR ''Y'')))
   \<and> (\<forall>day_night. row_get r ''Day/Night Indicator'' = Some day_night
         \<and> py_upper day_night \<noteq> ''DAY'' \<longrightarrow> row_filter env r = Inr False)
   \<and> (row_get r ''Satellite'' = None \<or> row_get r ''Day/Night Indicator'' = None
        \<or> row_get r ''WRS Path'' = None \<or> row_get r ''WRS Row'' = None
      \<longrightarrow> row_filter env r = Inr False)
   \<and> (row_filter env r = Inr False
      \<longrightarrow> filtered_paths env (r # rs) = filtered_paths env rs)"
proof (intro conjI)
  show "row_get r ''Satellite'' = Some ''4'' \<or> row_get r ''Satellite'' = Some ''LANDSAT_4''
      \<longrightarrow> row_filter env r = Inr False"
    by (auto simp: row_filter_def)
next
  have kept: "\<exists>day_night. row_get r ''Day/Night Indicator'' = Some day_night
             \<and> py_upper day_night = ''DAY''"
    if "row_filter env r = Inr True"
  proof (cases "row_get r ''Satellite''")
    case None
    with that show ?thesis by (simp add: row_filter_def)
  next
    case sat: (Some satellite)
    show ?thesis
    proof (cases "row_get r ''Day/Night Indicator''")
      case None
      with that sat show ?thesis by (simp add: row_filter_def split: if_splits)
    next
      case (Some day_night)
      with that sat have "py_upper day_night = ''DAY''"
        by (simp add: row_filter_def split: if_splits)
      with Some show ?thesis by simp
    qed
  qed
  show "row_filter env r = Inr True
      \<longrightarrow> (\<exists>a b c. row_get r ''Day/Night Indicator'' = Some [a, b, c]
             \<and> (a = CHR ''d'' \<or> a = CHR ''D'') \<and> (b = CHR ''a'' \<or> b = CHR ''A'')
             \<and> (c = CHR ''y'' \<or> c = CHR ''Y''))"
  proof
    assume "row_filter env r = Inr True"
    then obtain day_night where dn: "row_get r ''Day/Night Indicator'' = Some day_night"
      and up: "py_upper day_night = ''DAY''"
      using kept by blast
    from up obtain a b c where "day_night = [a, b, c]"
      and "a = CHR ''d'' \<or> a = CHR ''D''" and "b = CHR ''a'' \<or> b = CHR ''A''"
      and "c = CHR ''y'' \<or> c = CHR ''Y''"
      unfolding py_upper_DAY by blast
    with dn show "\<exists>a b c. row_get r ''Day/Night Indicator'' = Some [a, b, c]
             \<and> (a = CHR ''d'' \<or> a = CHR ''D'') \<and> (b = CHR ''a'' \<or> b = CHR ''A'')
             \<and> (c = CHR ''y'' \<or> c = CHR ''Y'')"
      by blast
  qed
next
  show "\<forall>day_night. row_get r ''Day/Night Indicator'' = Some day_night
         \<and> py_upper day_night \<noteq> ''DAY'' \<longrightarrow> row_filter env r = Inr False"
    by (cases "row_get r ''Satellite''") (auto simp: row_filter_def)
next
  show "row_get r ''Satellite'' = None \<or> row_get r ''Day/Night Indicator'' = None
        \<or> row_get r ''WRS Path'' = None \<or> row_get r ''WRS Row'' = None
      \<longrightarrow> row_filter env r = Inr False"
    by (cases "row_get r ''Satellite''"; cases "row_get r ''Day/Night Indicator''";
        cases "row_get r ''WRS Path''"; cases "row_get r ''WRS Row''")
       (simp_all add: row_filter_def africa_filter_def)
next
  show "row_filter env r = Inr False
      \<longrightarrow> filtered_paths env (r # rs) = filtered_paths env rs"
    by simp
qed

theorem row_filter_drops_witness:
  "row_filter example_env example_row = Inr True
   \<and> (\<exists>a b c. row_get example_row ''Day/Night Indicator'' = Some [a, b, c]
          \<and> (a = CHR ''d'' \<or> a = CHR ''D'') \<and> (b = CHR ''a'' \<or> b = CHR ''A'')
          \<and> (c = CHR ''y'' \<or> c = CHR ''Y''))
   \<and> row_filter example_env (example_row(''Satellite'' \<mapsto> Some ''LANDSAT_4'')) = Inr False
   \<and> row_filter example_env (example_row(''Day/Night Indicator'' \<mapsto> Some ''NIGHT'')) = Inr False
   \<and> row_filter example_env (example_row(''WRS Row'' \<mapsto> None)) = Inr False
   \<and> row_filter example_env (example_row(''WRS Path'' := None)) = Inr False
   \<and> filtered_paths example_env [example_row(''WRS Path'' := None)] = Inr []"
proof -
  have s: "row_get (example_row(''Satellite'' \<mapsto> Some ''LANDSAT_4'')) ''Satellite''
             = Some ''LANDSAT_4''"
    by (simp add: row_get_def)
  have n: "row_get (example_row(''Day/Night Indicator'' \<mapsto> Some ''NIGHT''))
             ''Day/Night Indicator'' = Some ''NIGHT'' \<and> py_upper ''NIGHT'' \<noteq> ''DAY''"
    by (simp add: row_get_def py_upper_def)
  have w: "row_get (example_row(''WRS Row'' \<mapsto> None)) ''WRS Row'' = None"
    by (simp add: row_get_def)
  have p: "row_get (example_row(''WRS Path'' := None)) ''WRS Path'' = None"
    by (simp add: row_get_def)
  have k: "row_filter example_env example_row = Inr True" by code_simp
  note kept = row_filter_drops [THEN conjunct2, THEN conjunct1]
  from kept [of example_env example_row] k
  have 0: "\<exists>a b c. row_get example_row ''Day/Night Indicator'' = Some [a, b, c]
          \<and> (a = CHR ''d'' \<or> a = CHR ''D'') \<and> (b = CHR ''a'' \<or> b = CHR ''A'')
          \<and> (c = CHR ''y'' \<or> c = CHR ''Y'')"
    by (rule mp)
  note sat = row_filter_drops [THEN conjunct1]
  note night = row_filter_drops [THEN conjunct2, THEN conjunct2, THEN conjunct1]
  note absent = row_filter_drops [THEN conjunct2, THEN conjunct2, THEN conjunct2, THEN conjunct1]
  note dropped = row_filter_drops [THEN conjunct2, THEN conjunct2, THEN conjunct2, THEN conjunct2]
  from sat [of "example_row(''Satellite'' \<mapsto> Some ''LANDSAT_4'')" example_env] s
  have 1: "row_filter example_env (example_row(''Satellite'' \<mapsto> Some ''LANDSAT_4'')) = Inr False"
    by simp
  from night [of "example_row(''Day/Night Indicator'' \<mapsto> Some ''NIGHT'')" example_env] n
  have 2: "row_filter example_env (example_row(''Day/Night Indicator'' \<mapsto> Some ''NIGHT''))
             = Inr False"
    by simp
  from absent [of "example_row(''WRS Row'' \<mapsto> None)" example_env] w
  have 3: "row_filter example_env (example_row(''WRS Row'' \<mapsto> None)) = Inr False"
    by simp
  from absent [of "example_row(''WRS Path'' := None)" example_env] p
  have 4: "row_filter example_env (example_row(''WRS Path'' := None)) = Inr False"
    by simp
  from dropped [of example_env "example_row(''WRS Path'' := None)" "[]"] 4
  have 5: "filtered_paths example_env [example_row(''WRS Path'' := None)]
             = filtered_paths example_env []"
    by simp
  from k 0 1 2 3 4 5 show ?thesis by simp
qed

lemma filtered_paths_raises:
  "r \<in> set rows \<Longrightarrow> row_filter env r = Inr True \<Longrightarrow> build_path env r = Inl e
     \<Longrightarrow> \<exists>e'. filtered_paths env rows = Inl e'"
proof (induction rows)
  case Nil
  then show ?case by simp
next
  case (Cons x xs)
  show ?case
  proof (cases "x = r")
    case True
    with Cons.prems show ?thesis by simp
  next
    case False
    with Cons obtain e' where "filtered_paths env xs = Inl e'" by auto
    then show ?thesis by (auto split: sum.splits)
  qed
qed

lemma build_path_KeyError:
  assumes "r ''Sensor Identifier'' = None \<or> r ''Sensor Identifier'' = Some None
             \<or> r ''Date Acquired'' = None \<or> r ''Display ID'' = None"
  shows "\<exists>e. build_path env r = Inl e"
  using assms
  by (auto simp: build_path_def row_item_def Let_def split: option.splits sum.splits)

lemma build_path_None_display_id:
  assumes "r ''Sensor Identifier'' = Some (Some sensor)"
    and "r ''Date Acquired'' = Some acquired"
    and "convert_str_to_date env acquired = Inr d"
    and "r ''WRS Path'' = Some (Some wrs_path)" and "r ''WRS Row'' = Some (Some wrs_row)"
    and "r ''Display ID'' = Some None"
  shows "build_path env r
           = Inr (''collection02/level-2/standard/''
                  @ replace_char CHR ''_'' CHR ''-'' (py_lower sensor) @ ''/''
                  @ str_of_int (date_year d) @ ''/''
                  @ zfill 3 wrs_path @ ''/'' @ zfill 3 wrs_row @ ''/None/'')"
  using assms by (simp add: build_path_def row_item_def Let_def)

text \<open>
  Claim C10, as amended. There is a row that passes the whole filter and raises
  instead of being dropped. For every row that passes the filter: when the key of the
  sensor identifier, of the date acquired or of the display identifier is not in the
  row, or the value of the sensor identifier is \<^verbatim>\<open>None\<close>, building its path raises, and
  so does the reading of any bulk file that holds the row. When the display identifier
  is in the row with the value \<^verbatim>\<open>None\<close> and the other fields are read, building the path
  does not raise: the key it gives ends in \<^verbatim>\<open>None/\<close>.
\<close>

theorem build_path_missing_key_raises:
  "(row_filter env r = Inr True
      \<and> (r ''Sensor Identifier'' = None \<or> r ''Sensor Identifier'' = Some None
           \<or> r ''Date Acquired'' = None \<or> r ''Display ID'' = None)
      \<longrightarrow> (\<exists>e. build_path env r = Inl e)
          \<and> (\<forall>rows. r \<in> set rows \<longrightarrow> (\<exists>e. filtered_paths env rows = Inl e))
          \<and> (\<forall>file_name. r \<in> set (bulk_rows env file_name)
                \<longrightarrow> (\<exists>e. get_and_filter_keys_from_files env file_name = Inl e)))
   \<and> (r ''Sensor Identifier'' = Some (Some sensor) \<and> r ''Date Acquired'' = Some acquired
        \<and> convert_str_to_date env acquired = Inr d
        \<and> r ''WRS Path'' = Some (Some wrs_path) \<and> r ''WRS Row'' = Some (Some wrs_row)
        \<and> r ''Display ID'' = Some None
      \<longrightarrow> build_path env r
            = Inr (''collection02/level-2/standard/''
                   @ replace_char CHR ''_'' CHR ''-'' (py_lower sensor) @ ''/''
                   @ str_of_int (date_year d) @ ''/''
                   @ zfill 3 wrs_path @ ''/'' @ zfill 3 wrs_row @ ''/None/''))"
proof (intro conjI impI)
  assume h: "row_filter env r = Inr True
      \<and> (r ''Sensor Identifier'' = None \<or> r ''Sensor Identifier'' = Some None
           \<or> r ''Date Acquired'' = None \<or> r ''Display ID'' = None)"
  then have keep: "row_filter env r = Inr True" by (rule conjunct1)
  from h have "\<exists>e. build_path env r = Inl e"
    using build_path_KeyError [of r env] by blast
  then obtain e where e: "build_path env r = Inl e" ..
  then show "\<exists>e. build_path env r = Inl e" ..
  show rows: "\<forall>rows. r \<in> set rows \<longrightarrow> (\<exists>e. filtered_paths env rows = Inl e)"
    using filtered_paths_raises [OF _ keep e] by blast
  show "\<forall>file_name. r \<in> set (bulk_rows env file_name)
          \<longrightarrow> (\<exists>e. get_and_filter_keys_from_files env file_name = Inl e)"
  proof (intro allI impI)
    fix file_name
    assume "r \<in> set (bulk_rows env file_name)"
    with rows obtain e' where "filtered_paths env (bulk_rows env file_name) = Inl e'"
      by blast
    then show "\<exists>e. get_and_filter_keys_from_files env file_name = Inl e"
      by (simp add: get_and_filter_keys_from_files_def)
  qed
next
  assume "r ''Sensor Identifier'' = Some (Some sensor) \<and> r ''Date Acquired'' = Some acquired
        \<and> convert_str_to_date env acquired = Inr d
        \<and> r ''WRS Path'' = Some (Some wrs_path) \<and> r ''WRS Row'' = Some (Some wrs_row)
        \<and> r ''Display ID'' = Some None"
  then show "build_path env r
            = Inr (''collection02/level-2/standard/''
                   @ replace_char CHR ''_'' CHR ''-'' (py_lower sensor) @ ''/''
                   @ str_of_int (date_year d) @ ''/''
                   @ zfill 3 wrs_path @ ''/'' @ zfill 3 wrs_row @ ''/None/'')"
    using build_path_None_display_id [of r sensor acquired env d wrs_path wrs_row] by blast
qed

theorem build_path_missing_key_raises_witness:
  "row_filter example_env example_row = Inr True \<and> example_row ''Display ID'' = None
   \<and> (\<exists>e. build_path example_env example_row = Inl e)
   \<and> (\<exists>e. filtered_paths example_env [example_row] = Inl e)
   \<and> build_path example_env example_row = Inl (KeyError ''Display ID'')
   \<and> short_row ''Display ID'' = Some None
   \<and> build_path example_env short_row
       = Inr (''collection02/level-2/standard/''
              @ replace_char CHR ''_'' CHR ''-'' (py_lower ''OLI_TIRS'') @ ''/''
              @ str_of_int 2021 @ ''/'' @ zfill 3 ''3'' @ ''/'' @ zfill 3 ''45'' @ ''/None/'')"
proof -
  have f: "row_filter example_env example_row = Inr True" by code_simp
  have d: "example_row ''Display ID'' = None" by (simp add: example_row_def)
  have k: "build_path example_env example_row = Inl (KeyError ''Display ID'')" by code_simp
  note raises = build_path_missing_key_raises [THEN conjunct1]
  note formats = build_path_missing_key_raises [THEN conjunct2]
  from raises [of example_env example_row] f d
  have "(\<exists>e. build_path example_env example_row = Inl e)
       \<and> (\<forall>rows. example_row \<in> set rows \<longrightarrow> (\<exists>e. filtered_paths example_env rows = Inl e))"
    by blast
  then have 1: "(\<exists>e. build_path example_env example_row = Inl e)
       \<and> (\<exists>e. filtered_paths example_env [example_row] = Inl e)"
    by (metis list.set_intros(1))
  have s: "short_row ''Sensor Identifier'' = Some (Some ''OLI_TIRS'')
        \<and> short_row ''Date Acquired'' = Some (Some ''2021-01-02'')
        \<and> convert_str_to_date example_env (Some ''2021-01-02'') = Inr (Date 2021 1 2)
        \<and> short_row ''WRS Path'' = Some (Some ''3'') \<and> short_row ''WRS Row'' = Some (Some ''45'')
        \<and> short_row ''Display ID'' = Some None"
    by (simp add: short_row_def example_env_def)
  from formats [of short_row "''OLI_TIRS''" "Some ''2021-01-02''" example_env "Date 2021 1 2"
                   "''3''" "''45''"] s
  have 2: "build_path example_env short_row
       = Inr (''collection02/level-2/standard/''
              @ replace_char CHR ''_'' CHR ''-'' (py_lower ''OLI_TIRS'') @ ''/''
              @ str_of_int (date_year (Date 2021 1 2)) @ ''/'' @ zfill 3 ''3'' @ ''/''
              @ zfill 3 ''45'' @ ''/None/'')"
    by (rule mp)
  from s have 3: "short_row ''Display ID'' = Some None" by simp
  from f d k 1 2 3 show ?thesis by simp
qed

text \<open>
  The claim as it was stated fails for the display identifier: the row of a short line
  has the key with the value \<^verbatim>\<open>None\<close>, so the field is missing; the row passes the
  filter, and building its path gives a key and raises nothing.
\<close>

theorem display_id_None_counterexample:
  "row_get short_row ''Display ID'' = None
   \<and> row_filter example_env short_row = Inr True
   \<and> build_path example_env short_row
       = Inr ''collection02/level-2/standard/oli-tirs/2021/003/045/None/''"
  by code_simp

section \<open>Properties of the rainfall tiles\<close>

lemma download_and_cog_chirps_done:
  assumes "download_and_cog_chirps env store year month day s3_monthly_dst s3_daily_dst
             overwrite daily slack_url = (store', events, Inr ())"
  shows "(\<not> overwrite
            \<and> s3_head_object store (out_stac (file_strings year month day s3_monthly_dst
                                                 s3_daily_dst daily))
            \<and> store' = store \<and> events = [])
       \<or> (\<exists>mem_dst item.
             (overwrite \<or> \<not> s3_head_object store
                 (out_stac (file_strings year month day s3_monthly_dst s3_daily_dst daily)))
           \<and> stac_document env (file_strings year month day s3_monthly_dst s3_daily_dst daily)
                 year month day daily = Inr item
           \<and> store' = store
                 (out_data (file_strings year month day s3_monthly_dst s3_daily_dst daily)
                    \<mapsto> CogObject mem_dst,
                  out_stac (file_strings year month day s3_monthly_dst s3_daily_dst daily)
                    \<mapsto> StacObject item)
           \<and> events =
                 [CogTranslate (in_data (file_strings year month day s3_monthly_dst
                                           s3_daily_dst daily)),
                  PutObject (out_data (file_strings year month day s3_monthly_dst
                                         s3_daily_dst daily)) (CogObject mem_dst),
                  PutObject (out_stac (file_strings year month day s3_monthly_dst
                                         s3_daily_dst daily)) (StacObject item)])"
  using assms
  by (auto simp: download_and_cog_chirps_def failed_def Let_def split: if_splits sum.splits)

lemma stac_document_id:
  "stac_document env files year month day daily = Inr item
     \<Longrightarrow> item_id item = odc_uuid env ''chirps'' ''2.0'' [in_file files]"
  by (auto simp: stac_document_def Let_def split: if_splits sum.splits)

lemma in_file_file_strings:
  "in_file (file_strings year month day s3_monthly_dst s3_daily_dst daily)
     = (if daily then ''chirps-v2.0.'' @ year @ ''.'' @ month @ ''.'' @ day @ ''.tif.gz''
        else ''chirps-v2.0.'' @ year @ ''.'' @ month @ ''.tif.gz'')"
  by (simp add: file_strings_def Let_def)

lemma put_stac_document:
  assumes "download_and_cog_chirps env store year month day s3_monthly_dst s3_daily_dst
             overwrite daily slack_url = (store', events, result)"
    and "PutObject key (StacObject item) \<in> set events"
  shows "stac_document env (file_strings year month day s3_monthly_dst s3_daily_dst daily)
           year month day daily = Inr item"
  using assms
  by (auto simp: download_and_cog_chirps_def failed_def Let_def
           split: if_splits sum.splits option.splits)

text \<open>
  Claim C8. For every run without \<^verbatim>\<open>overwrite\<close>: when the STAC object of the
  destination exists, the run returns at once, with no conversion and nothing written.
  So when a first run without \<^verbatim>\<open>overwrite\<close> has returned, a second run with the same
  parameters on the store it left does nothing; the two runs together convert at most
  once, and exactly once when the STAC object was not there before the first run.
\<close>

theorem existing_stac_skips:
  "(s3_head_object store
       (out_stac (file_strings year month day s3_monthly_dst s3_daily_dst daily))
      \<longrightarrow> download_and_cog_chirps env store year month day s3_monthly_dst s3_daily_dst
            False daily slack_url = (store, [], Inr ()))
   \<and> (\<forall>store' events.
         download_and_cog_chirps env store year month day s3_monthly_dst s3_daily_dst
           False daily slack_url = (store', events, Inr ())
         \<longrightarrow> download_and_cog_chirps env store' year month day s3_monthly_dst s3_daily_dst
               False daily slack_url = (store', [], Inr ())
             \<and> conversions events \<le> 1
             \<and> (\<not> s3_head_object store
                     (out_stac (file_strings year month day s3_monthly_dst s3_daily_dst daily))
                  \<longrightarrow> conversions events = 1))"
proof (intro conjI allI impI)
  assume "s3_head_object store
            (out_stac (file_strings year month day s3_monthly_dst s3_daily_dst daily))"
  then show "download_and_cog_chirps env store year month day s3_monthly_dst s3_daily_dst
               False daily slack_url = (store, [], Inr ())"
    by (simp add: download_and_cog_chirps_def Let_def)
next
  fix store' events
  assume run: "download_and_cog_chirps env store year month day s3_monthly_dst s3_daily_dst
                 False daily slack_url = (store', events, Inr ())"
  from download_and_cog_chirps_done [OF run]
  have there: "s3_head_object store'
                 (out_stac (file_strings year month day s3_monthly_dst s3_daily_dst daily))"
    by (auto simp: s3_head_object_def)
  then show "download_and_cog_chirps env store' year month day s3_monthly_dst s3_daily_dst
               False daily slack_url = (store', [], Inr ())"
    by (simp add: download_and_cog_chirps_def Let_def)
  from download_and_cog_chirps_done [OF run]
  show "conversions events \<le> 1" by auto
  assume "\<not> s3_head_object store
              (out_stac (file_strings year month day s3_monthly_dst s3_daily_dst daily))"
  with download_and_cog_chirps_done [OF run]
  show "conversions events = 1" by auto
qed

theorem existing_stac_skips_witness:
  "\<exists>store' events.
      download_and_cog_chirps example_chirps_env Map.empty ''2020'' ''02'' ''01''
        ''s3://deafrica-data-dev-af/rainfall_chirps_monthy/''
        ''s3://deafrica-data-dev-af/rainfall_chirps_daily/'' False False None
        = (store', events, Inr ())
      \<and> conversions events = 1
      \<and> download_and_cog_chirps example_chirps_env store' ''2020'' ''02'' ''01''
          ''s3://deafrica-data-dev-af/rainfall_chirps_monthy/''
          ''s3://deafrica-data-dev-af/rainfall_chirps_daily/'' False False None
        = (store', [], Inr ())"
proof -
  have doc: "\<exists>item. stac_document example_chirps_env
               (file_strings ''2020'' ''02'' ''01''
                  ''s3://deafrica-data-dev-af/rainfall_chirps_monthy/''
                  ''s3://deafrica-data-dev-af/rainfall_chirps_daily/'' False)
               ''2020'' ''02'' ''01'' False = Inr item"
    by (simp add: stac_document_def py_int_def strip_def is_space_def int_unsigned_def
          is_digit_def int_max_str_digits_def digit_of_def digit_chars_def monthrange_end_def
          py_datetime_def c_int_def mdays_def isleap_def Let_def)
  have absent: "\<not> s3_head_object Map.empty
                    (out_stac (file_strings ''2020'' ''02'' ''01''
                       ''s3://deafrica-data-dev-af/rainfall_chirps_monthy/''
                       ''s3://deafrica-data-dev-af/rainfall_chirps_daily/'' False))"
    by (simp add: s3_head_object_def)
  from doc absent obtain store' events where
    run: "download_and_cog_chirps example_chirps_env Map.empty ''2020'' ''02'' ''01''
        ''s3://deafrica-data-dev-af/rainfall_chirps_monthy/''
        ''s3://deafrica-data-dev-af/rainfall_chirps_daily/'' False False None
        = (store', events, Inr ())"
    by (auto simp: download_and_cog_chirps_def example_chirps_env_def Let_def)
  from existing_stac_skips [of Map.empty "''2020''" "''02''" "''01''"
        "''s3://deafrica-data-dev-af/rainfall_chirps_monthy/''"
        "''s3://deafrica-data-dev-af/rainfall_chirps_daily/''" False example_chirps_env None]
    run absent
  show ?thesis by blast
qed

text \<open>
  Claim C9. For every year, month, day and granularity: the identifier of the STAC
  document that a run writes is \<^verbatim>\<open>odc_uuid\<close> of the name \<^verbatim>\<open>chirps\<close>, the version
  \<^verbatim>\<open>2.0\<close> and the name of the source file, which depends on the year, the month, the
  day and the granularity only. Two runs with the same four inputs write the same
  identifier, whatever the time, the store, the destinations and the other options are.
\<close>

theorem stac_id_deterministic:
  assumes "download_and_cog_chirps env1 store1 year month day monthly_dst1 daily_dst1
             overwrite1 daily slack_url1 = (store1', events1, result1)"
    and "download_and_cog_chirps env2 store2 year month day monthly_dst2 daily_dst2
             overwrite2 daily slack_url2 = (store2', events2, result2)"
    and "PutObject key1 (StacObject item1) \<in> set events1"
    and "PutObject key2 (StacObject item2) \<in> set events2"
    and "odc_uuid env1 = odc_uuid env2"
  shows "item_id item1
           = odc_uuid env1 ''chirps'' ''2.0''
               [if daily then ''chirps-v2.0.'' @ year @ ''.'' @ month @ ''.'' @ day @ ''.tif.gz''
                else ''chirps-v2.0.'' @ year @ ''.'' @ month @ ''.tif.gz'']
       \<and> item_id item1 = item_id item2"
proof -
  from put_stac_document [OF assms(1) assms(3)]
  have 1: "item_id item1 = odc_uuid env1 ''chirps'' ''2.0''
             [in_file (file_strings year month day monthly_dst1 daily_dst1 daily)]"
    by (rule stac_document_id)
  from put_stac_document [OF assms(2) assms(4)]
  have 2: "item_id item2 = odc_uuid env2 ''chirps'' ''2.0''
             [in_file (file_strings year month day monthly_dst2 daily_dst2 daily)]"
    by (rule stac_document_id)
  from 1 2 assms(5) show ?thesis by (simp add: in_file_file_strings)
qed

theorem stac_id_deterministic_witness:
  "\<exists>store1 events1 result1 store2 events2 result2 key1 item1 key2 item2.
      download_and_cog_chirps example_chirps_env Map.empty ''2020'' ''02'' ''01''
        ''s3://deafrica-data-dev-af/rainfall_chirps_monthy/''
        ''s3://deafrica-data-dev-af/rainfall_chirps_daily/'' False False None
        = (store1, events1, result1)
      \<and> download_and_cog_chirps (example_chirps_env\<lparr>now := ''2022-01-01T00:00:00Z''\<rparr>)
          Map.empty ''2020'' ''02'' ''01'' ''s3://other/monthly'' ''s3://other/daily''
          True False (Some ''https://hooks.example/x'')
        = (store2, events2, result2)
      \<and> PutObject key1 (StacObject item1) \<in> set events1
      \<and> PutObject key2 (StacObject item2) \<in> set events2
      \<and> item_id item1 = ''chirps-2.0-chirps-v2.0.2020.02.tif.gz''
      \<and> item_id item1 = item_id item2"
proof -
  have doc1: "\<exists>item. stac_document example_chirps_env
               (file_strings ''2020'' ''02'' ''01''
                  ''s3://deafrica-data-dev-af/rainfall_chirps_monthy/''
                  ''s3://deafrica-data-dev-af/rainfall_chirps_daily/'' False)
               ''2020'' ''02'' ''01'' False = Inr item"
    by (simp add: stac_document_def py_int_def strip_def is_space_def int_unsigned_def
          is_digit_def int_max_str_digits_def digit_of_def digit_chars_def monthrange_end_def
          py_datetime_def c_int_def mdays_def isleap_def Let_def)
  have doc2: "\<exists>item. stac_document (example_chirps_env\<lparr>now := ''2022-01-01T00:00:00Z''\<rparr>)
               (file_strings ''2020'' ''02'' ''01'' ''s3://other/monthly'' ''s3://other/daily''
                  False)
               ''2020'' ''02'' ''01'' False = Inr item"
    by (simp add: stac_document_def py_int_def strip_def is_space_def int_unsigned_def
          is_digit_def int_max_str_digits_def digit_of_def digit_chars_def monthrange_end_def
          py_datetime_def c_int_def mdays_def isleap_def Let_def)
  from doc1 obtain store1 events1 key1 item1 where
    run1: "download_and_cog_chirps example_chirps_env Map.empty ''2020'' ''02'' ''01''
        ''s3://deafrica-data-dev-af/rainfall_chirps_monthy/''
        ''s3://deafrica-data-dev-af/rainfall_chirps_daily/'' False False None
        = (store1, events1, Inr ())"
    and put1: "PutObject key1 (StacObject item1) \<in> set events1"
    by (auto simp: download_and_cog_chirps_def example_chirps_env_def s3_head_object_def Let_def)
  from doc2 obtain store2 events2 key2 item2 where
    run2: "download_and_cog_chirps (example_chirps_env\<lparr>now := ''2022-01-01T00:00:00Z''\<rparr>)
          Map.empty ''2020'' ''02'' ''01'' ''s3://other/monthly'' ''s3://other/daily''
          True False (Some ''https://hooks.example/x'')
        = (store2, events2, Inr ())"
    and put2: "PutObject key2 (StacObject item2) \<in> set events2"
    by (auto simp: download_and_cog_chirps_def example_chirps_env_def s3_head_object_def Let_def)
  have same: "odc_uuid example_chirps_env
                = odc_uuid (example_chirps_env\<lparr>now := ''2022-01-01T00:00:00Z''\<rparr>)"
    by simp
  from stac_id_deterministic [OF run1 run2 put1 put2 same]
  have "item_id item1 = ''chirps-2.0-chirps-v2.0.2020.02.tif.gz''
        \<and> item_id item1 = item_id item2"
    by (auto simp: example_chirps_env_def)
  with run1 run2 put1 put2 show ?thesis by blast
qed

end
